theory Spec2Isabelle
  imports Complex_Main
begin

section \<open>Values of the program\<close>

text \<open>
  The module \<^verbatim>\<open>markitdown_mcp/__main__.py\<close> is glue around three libraries: the
  MCP server framework, the web framework and the MarkItDown converter. What the module
  itself computes is embedded below; what the libraries compute is taken as input
  (the outcome of \<^verbatim>\<open>request.json()\<close>, the outcome of \<^verbatim>\<open>parser.parse_args()\<close>)
  or as a parameter (the MarkItDown class).
\<close>

text \<open>
  A Python float, as far as the module looks at it: a finite value (both zeros are the
  real number 0), a NaN or an infinity (\<^verbatim>\<open>json.loads\<close> accepts the literals
  \<^verbatim>\<open>NaN\<close>, \<^verbatim>\<open>Infinity\<close> and \<^verbatim>\<open>-Infinity\<close>).
\<close>

datatype pyfloat = Finite real | NaN | Infinite bool

text \<open>
  A Python \<^verbatim>\<open>str\<close> is the list of the bytes of its UTF-8 encoding. A \<^verbatim>\<open>str\<close> can
  hold a lone surrogate (\<^verbatim>\<open>json.loads\<close> returns one for the JSON text \<^verbatim>\<open>"\ud800"\<close>),
  for which UTF-8 has no bytes: it is written as the three bytes that Python's
  \<^verbatim>\<open>surrogatepass\<close> error handler writes for it, \<open>0xED\<close>, then a byte from \<open>0xA0\<close> on,
  then a third byte. In the encoding of any other code point the byte \<open>0xED\<close> is
  followed by a byte below \<open>0xA0\<close>.
\<close>

text \<open>
  What \<^verbatim>\<open>json.loads\<close> returns. A dict is the list of its items in insertion order;
  a key is bound to the value of its first pair.
\<close>

datatype json =
    JNull
  | JBool bool
  | JInt int
  | JFloat pyfloat
  | JStr string
  | JList "json list"
  | JDict "(string \<times> json) list"

text \<open>
  An instance of a subclass of Python's \<^verbatim>\<open>Exception\<close>: its class name and what
  \<^verbatim>\<open>str(e)\<close> returns. These are the values that \<^verbatim>\<open>except Exception as e\<close> binds.
  What is raised outside that class (\<^verbatim>\<open>SystemExit\<close>, \<^verbatim>\<open>KeyboardInterrupt\<close>, the
  cancellation of a task) is no value of this type: the request and the converter are
  taken to fail with an \<^verbatim>\<open>Exception\<close>, and \<^verbatim>\<open>SystemExit\<close> appears only where the entry
  point meets it.
\<close>

datatype exn = Exn (exn_class: string) (exn_str: string)

fun float_truthy :: "pyfloat \<Rightarrow> bool" where
  "float_truthy (Finite x) = (x \<noteq> 0)"
| "float_truthy NaN = True"
| "float_truthy (Infinite negative) = True"

text \<open>Python's truth value of an object, which \<^verbatim>\<open>not uri\<close> negates.\<close>

fun truthy :: "json \<Rightarrow> bool" where
  "truthy JNull = False"
| "truthy (JBool b) = b"
| "truthy (JInt i) = (i \<noteq> 0)"
| "truthy (JFloat f) = float_truthy f"
| "truthy (JStr s) = (s \<noteq> [])"
| "truthy (JList xs) = (xs \<noteq> [])"
| "truthy (JDict kvs) = (kvs \<noteq> [])"

fun type_name :: "json \<Rightarrow> string" where
  "type_name JNull = ''NoneType''"
| "type_name (JBool b) = ''bool''"
| "type_name (JInt i) = ''int''"
| "type_name (JFloat f) = ''float''"
| "type_name (JStr s) = ''str''"
| "type_name (JList xs) = ''list''"
| "type_name (JDict kvs) = ''dict''"

definition quoted :: "string \<Rightarrow> string" where
  "quoted s = CHR 0x27 # s @ [CHR 0x27]"

text \<open>
  \<^verbatim>\<open>body.get(key)\<close>: on a dict the value of the key, or \<^verbatim>\<open>None\<close> when the key is
  absent; every other JSON value has no attribute \<^verbatim>\<open>get\<close> and the attribute access
  raises \<^verbatim>\<open>AttributeError\<close>.
\<close>

fun py_get :: "json \<Rightarrow> string \<Rightarrow> exn + json" where
  "py_get (JDict kvs) key = Inr (case map_of kvs key of None \<Rightarrow> JNull | Some v \<Rightarrow> v)"
| "py_get body key =
     Inl (Exn ''AttributeError''
       (quoted (type_name body) @ '' object has no attribute '' @ quoted ''get''))"

section \<open>Requests and responses\<close>

text \<open>
  Of a request the handler uses \<^verbatim>\<open>await request.json()\<close> only: the parsed body, or
  the exception the framework raises (a body that is not JSON, a client that went away).
\<close>

record request =
  request_json :: "exn + json"

record response =
  content :: json
  status_code :: int

section \<open>Rendering a response\<close>

text \<open>
  A surrogate starts where the byte \<open>0xED\<close> is followed by a byte from \<open>0xA0\<close> on.
\<close>

fun surrogate_at :: "string \<Rightarrow> bool" where
  "surrogate_at (a # b # s) = ((of_char a :: nat) = 0xED \<and> 0xA0 \<le> (of_char b :: nat))"
| "surrogate_at s = False"

fun has_surrogate :: "string \<Rightarrow> bool" where
  "has_surrogate [] = False"
| "has_surrogate (a # s) = (surrogate_at (a # s) \<or> has_surrogate s)"

text \<open>The code point of the surrogate at the head, and the number of surrogates in a row.\<close>

fun surrogate_code :: "string \<Rightarrow> nat" where
  "surrogate_code (a # b # c # s) = 0xD000 + (of_char b mod 64) * 64 + of_char c mod 64"
| "surrogate_code s = 0"

fun surrogate_run :: "string \<Rightarrow> nat" where
  "surrogate_run (a # b # c # s) =
     (if surrogate_at (a # b # c # s) then surrogate_run s + 1 else 0)"
| "surrogate_run s = 0"

text \<open>
  A byte from \<open>0x80\<close> to \<open>0xBF\<close> continues a code point; every other byte starts one.
\<close>

definition is_continuation :: "char \<Rightarrow> bool" where
  "is_continuation b = (0x80 \<le> (of_char b :: nat) \<and> (of_char b :: nat) < 0xC0)"

text \<open>
  The first surrogate of a text when \<open>i\<close> code points came before the text: its index
  in code points, the length of the run of surrogates it starts, and its code point.
\<close>

fun first_surrogate :: "string \<Rightarrow> nat \<Rightarrow> (nat \<times> nat \<times> nat) option" where
  "first_surrogate [] i = None"
| "first_surrogate (a # s) i =
     (if surrogate_at (a # s) then Some (i, surrogate_run (a # s), surrogate_code (a # s))
      else first_surrogate s (if is_continuation a then i else i + 1))"

definition hex_digit :: "nat \<Rightarrow> char" where
  "hex_digit d = ''0123456789abcdef'' ! d"

fun decimal :: "nat \<Rightarrow> string" where
  "decimal n =
     (if n < 10 then [''0123456789'' ! n]
      else decimal (n div 10) @ [''0123456789'' ! (n mod 10)])"

declare decimal.simps [simp del]

text \<open>
  \<^verbatim>\<open>str(e)\<close> of the \<^verbatim>\<open>UnicodeEncodeError\<close> that \<^verbatim>\<open>.encode("utf-8")\<close> raises for a run of
  \<open>n\<close> surrogates at index \<open>i\<close>, the first of them the code point \<open>cp\<close>.
\<close>

definition encode_error_str :: "nat \<Rightarrow> nat \<Rightarrow> nat \<Rightarrow> string" where
  "encode_error_str i n cp =
     (if n = 1 then
        [CHR 0x27] @ ''utf-8'' @ [CHR 0x27] @ '' codec can'' @ [CHR 0x27]
        @ ''t encode character ''
        @ [CHR 0x27, CHR 0x5C, CHR ''u'', hex_digit (cp div 4096 mod 16),
           hex_digit (cp div 256 mod 16), hex_digit (cp div 16 mod 16), hex_digit (cp mod 16),
           CHR 0x27]
        @ '' in position '' @ decimal i @ '': surrogates not allowed''
      else
        [CHR 0x27] @ ''utf-8'' @ [CHR 0x27] @ '' codec can'' @ [CHR 0x27]
        @ ''t encode characters in position '' @ decimal i @ ''-'' @ decimal (i + n - 1)
        @ '': surrogates not allowed'')"

text \<open>
  \<^verbatim>\<open>json.dumps(content, ensure_ascii=False, separators=(",", ":"))\<close> on a dict from
  strings to strings: the quotation mark, the backslash and the control characters are
  escaped, every other character is left as it is.
\<close>

definition escape_char :: "char \<Rightarrow> string" where
  "escape_char c =
     (if c = CHR 0x22 then [CHR 0x5C, CHR 0x22]
      else if c = CHR 0x5C then [CHR 0x5C, CHR 0x5C]
      else if c = CHR 0x08 then [CHR 0x5C, CHR ''b'']
      else if c = CHR 0x0C then [CHR 0x5C, CHR ''f'']
      else if c = CHR 0x0A then [CHR 0x5C, CHR ''n'']
      else if c = CHR 0x0D then [CHR 0x5C, CHR ''r'']
      else if c = CHR 0x09 then [CHR 0x5C, CHR ''t'']
      else if (of_char c :: nat) < 0x20 then
        [CHR 0x5C, CHR ''u'', CHR ''0'', CHR ''0'',
         hex_digit (of_char c div 16), hex_digit (of_char c mod 16)]
      else [c])"

definition encode_basestring :: "string \<Rightarrow> string" where
  "encode_basestring s = CHR 0x22 # concat (map escape_char s) @ [CHR 0x22]"

fun dumps_items :: "(string \<times> string) list \<Rightarrow> string" where
  "dumps_items [] = []"
| "dumps_items [(k, v)] = encode_basestring k @ '':'' @ encode_basestring v"
| "dumps_items ((k, v) # kv # kvs) =
     encode_basestring k @ '':'' @ encode_basestring v @ '','' @ dumps_items (kv # kvs)"

definition dumps :: "(string \<times> string) list \<Rightarrow> string" where
  "dumps items = ''{'' @ dumps_items items @ ''}''"

text \<open>
  \<^verbatim>\<open>JSONResponse(content, status_code=200)\<close>. The module calls the constructor with dict
  literals from a string to a string only, and the model takes the items of such a dict.
  The constructor renders the body at once, as
  \<^verbatim>\<open>json.dumps(content, ensure_ascii=False, ...).encode("utf-8")\<close>, and so raises
  \<^verbatim>\<open>UnicodeEncodeError\<close> when the text holds a surrogate. Otherwise the response is the
  pair of its content and its status.
\<close>

definition JSONResponse :: "(string \<times> string) list \<Rightarrow> int option \<Rightarrow> exn + response" where
  "JSONResponse items status =
     (case first_surrogate (dumps items) 0 of
        Some (i, n, cp) \<Rightarrow> Inl (Exn ''UnicodeEncodeError'' (encode_error_str i n cp))
      | None \<Rightarrow>
          Inr \<lparr>content = JDict (map (\<lambda>(k, v). (k, JStr v)) items),
               status_code = (case status of None \<Rightarrow> 200 | Some s \<Rightarrow> s)\<rparr>)"

section \<open>The capability registry\<close>

datatype annotation = Ann_str | Ann_int | Ann_bool | Ann_none

datatype fn_ref = Fn_convert_to_markdown

record param =
  param_name :: string
  param_annotation :: annotation
  param_has_default :: bool

record pyfun =
  fn_name :: string
  fn_doc :: string
  fn_params :: "param list"
  fn_ref :: fn_ref

record field_schema =
  field_type :: annotation
  required :: bool

record capability =
  cap_id :: string
  cap_description :: string
  input_schema :: "(string \<times> field_schema) list"
  cap_handler :: fn_ref

datatype registry_error = DuplicateCapabilityError string

text \<open>
  Modelled from the spec: the registration operation of the capability registry, which
  the module takes from the MCP framework (\<^verbatim>\<open>FastMCP\<close>) and does not define.
  Section 4.1: registering fails with \<open>DuplicateCapabilityError\<close> if the id already
  exists.
\<close>

definition register :: "capability \<Rightarrow> capability list \<Rightarrow> registry_error + capability list" where
  "register c reg =
     (if cap_id c \<in> set (map cap_id reg) then Inl (DuplicateCapabilityError (cap_id c))
      else Inr (reg @ [c]))"

text \<open>
  Modelled from the spec: the decorator \<^verbatim>\<open>@mcp.tool()\<close> of the MCP framework, which the
  module applies and does not define. It registers the capability of a function
  (section 3: an id, an input schema from field names to type and required flag, a
  handler reference): the id is the function's name, the description its docstring, and
  each parameter is one schema field, required when the parameter has no default.
\<close>

definition tool :: "pyfun \<Rightarrow> capability list \<Rightarrow> registry_error + capability list" where
  "tool f reg =
     register
       \<lparr>cap_id = fn_name f,
        cap_description = fn_doc f,
        input_schema =
          map (\<lambda>q. (param_name q,
                 \<lparr>field_type = param_annotation q, required = (\<not> param_has_default q)\<rparr>))
            (fn_params f),
        cap_handler = fn_ref f\<rparr>
       reg"

text \<open>
  The signature of the one decorated function of the module,
  \<^verbatim>\<open>async def convert_to_markdown(uri: str) -> str\<close>, and the registry of
  \<^verbatim>\<open>mcp = FastMCP("markitdown")\<close> once the module is loaded: the decorator is applied
  once, to an empty registry. The module has no other statement that touches the registry.
\<close>

definition convert_to_markdown_fn :: pyfun where
  "convert_to_markdown_fn =
     \<lparr>fn_name = ''convert_to_markdown'',
      fn_doc = ''Convert a resource described by an http:, https:, file: or data: URI to markdown'',
      fn_params = [\<lparr>param_name = ''uri'', param_annotation = Ann_str, param_has_default = False\<rparr>],
      fn_ref = Fn_convert_to_markdown\<rparr>"

definition mcp :: "registry_error + capability list" where
  "mcp = tool convert_to_markdown_fn []"

section \<open>The state of the process\<close>

datatype level = DEBUG | INFO | ERROR

record args =
  sse :: bool
  host :: "string option"
  port :: "int option"

text \<open>
  A log message is the list of the pieces of its f-string: literal text, or the object
  that is interpolated. \<^verbatim>\<open>logging.basicConfig\<close> without a stream sends every record to
  the error stream, where \<^verbatim>\<open>parser.error\<close> writes too.
\<close>

datatype frag = Text string | Obj_argv "string list" | Obj_args args | Obj_int int

datatype err_item = Log_record level "frag list" | Usage_error string

text \<open>
  The MarkItDown class, a parameter: \<open>md_init\<close> is \<^verbatim>\<open>MarkItDown()\<close> and
  \<open>md_convert_uri\<close> is \<^verbatim>\<open>.convert_uri(uri).markdown\<close> on an instance. Both may raise, and
  both may read and change the world outside the module \<open>'w\<close> (the resources that URIs
  name, and whatever the library keeps of its own); the method may also read and change
  the state \<open>'c\<close> of the instance it is called on. The URI is the JSON value the caller
  passes: the annotation \<^verbatim>\<open>uri: str\<close> is not checked when the function is called.
\<close>

record ('c, 'w) markitdown =
  md_init :: "'w \<Rightarrow> (exn + 'c) \<times> 'w"
  md_convert_uri :: "'c \<Rightarrow> json \<Rightarrow> 'w \<Rightarrow> (exn + string) \<times> 'c \<times> 'w"

text \<open>
  \<open>tools\<close> is the registry, \<open>heap\<close> holds the MarkItDown instances constructed so far
  (an instance is addressed by its index), \<open>world\<close> is the world outside the module and
  \<open>stderr\<close> the error stream. \<open>calls\<close> is a history variable that no code reads: the
  arguments of the calls of \<open>convert_to_markdown\<close> so far.
\<close>

record ('c, 'w) proc =
  tools :: "capability list"
  heap :: "'c list"
  calls :: "json list"
  world :: 'w
  stderr :: "err_item list"

definition logger :: "level \<Rightarrow> frag list \<Rightarrow> ('c, 'w) proc \<Rightarrow> ('c, 'w) proc" where
  "logger lvl msg p = p\<lparr>stderr := stderr p @ [Log_record lvl msg]\<rparr>"

text \<open>
  The process when the module is loaded. A registration that failed would end the import
  with an exception; \<open>mcp_registry\<close> shows that it does not fail.
\<close>

definition startup :: "'w \<Rightarrow> ('c, 'w) proc" where
  "startup w =
     \<lparr>tools = (case mcp of Inl e \<Rightarrow> [] | Inr reg \<Rightarrow> reg),
      heap = [], calls = [], world = w, stderr = []\<rparr>"

section \<open>The conversion handler\<close>

text \<open>
  \<^verbatim>\<open>return MarkItDown().convert_uri(uri).markdown\<close>: a new instance is allocated at the
  next free address, the method runs on that instance, and the instance stays behind in
  the heap with no reference to it. The body has no \<^verbatim>\<open>await\<close>, so a call runs from
  start to end without another task in between.
\<close>

definition convert_to_markdown ::
  "('c, 'w) markitdown \<Rightarrow> json \<Rightarrow> ('c, 'w) proc \<Rightarrow> (exn + string) \<times> ('c, 'w) proc" where
  "convert_to_markdown M uri p =
     (let p0 = p\<lparr>calls := calls p @ [uri]\<rparr> in
      case md_init M (world p0) of
        (Inl e, w1) \<Rightarrow> (Inl e, p0\<lparr>world := w1\<rparr>)
      | (Inr c, w1) \<Rightarrow>
          (let a = length (heap p0);
               p1 = p0\<lparr>heap := heap p0 @ [c], world := w1\<rparr>
           in case md_convert_uri M (heap p1 ! a) uri (world p1) of
                (r, c', w2) \<Rightarrow> (r, p1\<lparr>heap := (heap p1)[a := c'], world := w2\<rparr>)))"

text \<open>The function a registered handler reference stands for.\<close>

fun fn_call ::
  "('c, 'w) markitdown \<Rightarrow> fn_ref \<Rightarrow> json \<Rightarrow> ('c, 'w) proc \<Rightarrow> (exn + string) \<times> ('c, 'w) proc" where
  "fn_call M Fn_convert_to_markdown = convert_to_markdown M"

text \<open>
  The expression \<^verbatim>\<open>MarkItDown().convert_uri(uri).markdown\<close> on its own, with no heap:
  the outcome and the world it leaves.
\<close>

definition markitdown_convert ::
  "('c, 'w) markitdown \<Rightarrow> json \<Rightarrow> 'w \<Rightarrow> (exn + string) \<times> 'w" where
  "markitdown_convert M uri w =
     (case md_init M w of
        (Inl e, w1) \<Rightarrow> (Inl e, w1)
      | (Inr c, w1) \<Rightarrow> (case md_convert_uri M c uri w1 of (r, c', w2) \<Rightarrow> (r, w2)))"

section \<open>The handler of POST /convert\<close>

text \<open>
  The route \<^verbatim>\<open>Route("/convert", endpoint=handle_http_convert, methods=["POST"])\<close> makes
  the web framework call \<open>handle_http_convert\<close> for a POST to \<^verbatim>\<open>/convert\<close>. The other
  two routes hand the connection to the MCP framework (\<^verbatim>\<open>mcp_server.run\<close>,
  \<^verbatim>\<open>sse.handle_post_message\<close>); the module has no code for sessions, frames or
  correlation ids.
\<close>

text \<open>
  The body of the \<^verbatim>\<open>try\<close> statement of \<^verbatim>\<open>handle_http_convert\<close>: \<open>Inl e\<close> is an
  exception raised inside it, by the request, by the converter or by the constructor of
  a response.
\<close>

definition convert_body ::
  "('c, 'w) markitdown \<Rightarrow> request \<Rightarrow> ('c, 'w) proc \<Rightarrow> (exn + response) \<times> ('c, 'w) proc" where
  "convert_body M request p =
     (case request_json request of
        Inl e \<Rightarrow> (Inl e, p)
      | Inr body \<Rightarrow>
          (case py_get body ''uri'' of
             Inl e \<Rightarrow> (Inl e, p)
           | Inr uri \<Rightarrow>
               if \<not> truthy uri then
                 (JSONResponse [(''error'', ''Missing required parameter: uri'')] (Some 400), p)
               else
                 (case convert_to_markdown M uri p of
                    (Inl e, p') \<Rightarrow> (Inl e, p')
                  | (Inr markdown, p') \<Rightarrow> (JSONResponse [(''markdown'', markdown)] None, p'))))"

text \<open>
  \<^verbatim>\<open>handle_http_convert\<close>: the \<^verbatim>\<open>try\<close> body, and the clause
  \<^verbatim>\<open>except Exception as e\<close> that logs the exception and answers with status 500. The
  response of that clause is constructed outside the \<^verbatim>\<open>try\<close> body: an exception of
  its constructor leaves the handler (\<open>Inl\<close>).
\<close>

definition handle_http_convert ::
  "('c, 'w) markitdown \<Rightarrow> request \<Rightarrow> ('c, 'w) proc \<Rightarrow> (exn + response) \<times> ('c, 'w) proc" where
  "handle_http_convert M request p =
     (case convert_body M request p of
        (Inr resp, p') \<Rightarrow> (Inr resp, p')
      | (Inl e, p') \<Rightarrow>
          (JSONResponse [(''error'', exn_str e)] (Some 500),
           logger ERROR [Text ''Error processing request: '', Text (exn_str e)] p'))"

section \<open>The entry point\<close>

text \<open>
  What \<^verbatim>\<open>parser.parse_args()\<close> does with the command line: it returns the namespace,
  or it leaves through \<^verbatim>\<open>SystemExit\<close> (a usage error of its own, or \<^verbatim>\<open>--help\<close>), which
  is no \<^verbatim>\<open>Exception\<close>, or it raises an \<^verbatim>\<open>Exception\<close>. With \<^verbatim>\<open>default=None\<close> an
  attribute of the namespace is \<open>None\<close> exactly when its option is not on the command line.
\<close>

datatype parse_result = Parsed args | Parse_exit int | Parse_raise exn

text \<open>
  How \<^verbatim>\<open>main\<close> ends: the process exits with a status, an exception goes uncaught, or a
  server is started. \<^verbatim>\<open>uvicorn.run\<close> serves the application of
  \<^verbatim>\<open>create_starlette_app\<close> on the host and the port it is given; \<^verbatim>\<open>mcp.run()\<close> is the
  stdio transport.
\<close>

datatype outcome =
    Sys_exit int
  | Uncaught exn
  | Uvicorn_run string int
  | Mcp_run_stdio

definition error_msg :: string where
  "error_msg = ''Host and port arguments are only valid when using SSE transport.''"

text \<open>
  \<^verbatim>\<open>parser.error(message)\<close> writes the usage and the message to the error stream and
  raises \<^verbatim>\<open>SystemExit(2)\<close>; the \<^verbatim>\<open>sys.exit(1)\<close> after it is never reached.
\<close>

definition parser_error :: "string \<Rightarrow> ('c, 'w) proc \<Rightarrow> outcome \<times> ('c, 'w) proc" where
  "parser_error msg p = (Sys_exit 2, p\<lparr>stderr := stderr p @ [Usage_error msg]\<rparr>)"

text \<open>The truth value of \<^verbatim>\<open>args.host\<close> and of \<^verbatim>\<open>args.port\<close>.\<close>

fun host_truthy :: "string option \<Rightarrow> bool" where
  "host_truthy None = False"
| "host_truthy (Some h) = (h \<noteq> [])"

fun port_truthy :: "int option \<Rightarrow> bool" where
  "port_truthy None = False"
| "port_truthy (Some n) = (n \<noteq> 0)"

definition main ::
  "string list \<Rightarrow> parse_result \<Rightarrow> ('c, 'w) proc \<Rightarrow> outcome \<times> ('c, 'w) proc" where
  "main argv parsed p =
     (let p1 = logger INFO [Text ''Starting markitdown-mcp server''] p;
          p2 = logger DEBUG [Text ''Command line arguments: '', Obj_argv argv] p1
      in case parsed of
           Parse_exit n \<Rightarrow> (Sys_exit n, p2)
         | Parse_raise e \<Rightarrow>
             (Uncaught e, logger ERROR [Text ''Error parsing arguments: '', Text (exn_str e)] p2)
         | Parsed a \<Rightarrow>
             (let p3 = logger DEBUG [Text ''Parsed arguments: '', Obj_args a] p2 in
              if \<not> sse a \<and> (host_truthy (host a) \<or> port_truthy (port a)) then
                parser_error error_msg (logger ERROR [Text error_msg] p3)
              else if sse a then
                (let p4 = logger INFO [Text ''Starting in SSE mode''] p3;
                     h = (case host a of
                            None \<Rightarrow> ''127.0.0.1''
                          | Some s \<Rightarrow> if s \<noteq> [] then s else ''127.0.0.1'');
                     n = (case port a of
                            None \<Rightarrow> 3001
                          | Some k \<Rightarrow> if k \<noteq> 0 then k else 3001);
                     p5 = logger INFO [Text ''Binding to '', Text h, Text '':'', Obj_int n] p4
                 in (Uvicorn_run h n, p5))
              else (Mcp_run_stdio, logger INFO [Text ''Starting in STDIO mode''] p3)))"

section \<open>Runs of the process\<close>

text \<open>
  The frameworks call into the module: the web framework calls \<open>handle_http_convert\<close>
  for a POST to \<^verbatim>\<open>/convert\<close>, and a protocol session (over stdio or SSE) calls the
  registered handler with the argument of a tool call. After \<^verbatim>\<open>await request.json()\<close>
  no handler awaits anything that suspends, so the calls of a run happen one after the
  other.
\<close>

datatype event = Post_convert request | Call_tool json

datatype reply = Http_response response | Tool_result "exn + string" | Handler_raised exn

fun handle_event ::
  "('c, 'w) markitdown \<Rightarrow> event \<Rightarrow> ('c, 'w) proc \<Rightarrow> reply \<times> ('c, 'w) proc" where
  "handle_event M (Post_convert request) p =
     (case handle_http_convert M request p of
        (Inr resp, p') \<Rightarrow> (Http_response resp, p')
      | (Inl e, p') \<Rightarrow> (Handler_raised e, p'))"
| "handle_event M (Call_tool uri) p =
     (case fn_call M Fn_convert_to_markdown uri p of (r, p') \<Rightarrow> (Tool_result r, p'))"

fun serve ::
  "('c, 'w) markitdown \<Rightarrow> event list \<Rightarrow> ('c, 'w) proc \<Rightarrow> reply list \<times> ('c, 'w) proc" where
  "serve M [] p = ([], p)"
| "serve M (ev # evs) p =
     (case handle_event M ev p of
        (r, p') \<Rightarrow> (case serve M evs p' of (rs, p'') \<Rightarrow> (r # rs, p'')))"

section \<open>A collaborator for concrete runs\<close>

text \<open>
  A small MarkItDown for instantiating the theorems: the world is a table from URIs to
  the markdown of the resource, and an instance counts the conversions it has done and
  refuses a second one, so that a run in which an instance is used twice would show.
  The markdown of the third resource ends in the lone surrogate U+D800, and the
  exception for an unknown URI repeats the URI.
\<close>

definition stub_markitdown :: "(nat, (string \<times> string) list) markitdown" where
  "stub_markitdown =
     \<lparr>md_init = (\<lambda>w. (Inr 0, w)),
      md_convert_uri = (\<lambda>c uri w.
        case uri of
          JStr s \<Rightarrow>
            if c \<noteq> 0 then (Inl (Exn ''RuntimeError'' ''converter already used''), c, w)
            else
              (case map_of w s of
                 Some text \<Rightarrow> (Inr text, Suc c, w)
               | None \<Rightarrow> (Inl (Exn ''FileNotFoundError'' s), Suc c, w))
        | _ \<Rightarrow> (Inl (Exn ''TypeError'' ''uri must be a string''), c, w))\<rparr>"

definition stub_world :: "(string \<times> string) list" where
  "stub_world =
     [(''https://example.com'', ''Example''),
      (''file:///a.txt'', ''# Title''),
      (''file:///notes.ipynb'', ''# '' @ [CHR 0xED, CHR 0xA0, CHR 0x80])]"

definition stub_proc :: "(nat, (string \<times> string) list) proc" where
  "stub_proc = startup stub_world"

section \<open>What a call of the conversion handler reads and changes\<close>

lemma convert_to_markdown_outcome:
  "fst (convert_to_markdown M uri p) = fst (markitdown_convert M uri (world p))"
  by (simp add: convert_to_markdown_def markitdown_convert_def Let_def
      split: prod.splits sum.splits)

lemma convert_to_markdown_world:
  "world (snd (convert_to_markdown M uri p)) = snd (markitdown_convert M uri (world p))"
  by (simp add: convert_to_markdown_def markitdown_convert_def Let_def
      split: prod.splits sum.splits)

text \<open>Every call leaves its argument in the history, so a call cannot go unnoticed.\<close>

lemma convert_to_markdown_calls:
  "calls (snd (convert_to_markdown M uri p)) = calls p @ [uri]"
  by (simp add: convert_to_markdown_def Let_def split: prod.splits sum.splits)

lemma convert_to_markdown_tools:
  "tools (snd (convert_to_markdown M uri p)) = tools p"
  by (simp add: convert_to_markdown_def Let_def split: prod.splits sum.splits)

lemma convert_to_markdown_stderr:
  "stderr (snd (convert_to_markdown M uri p)) = stderr p"
  by (simp add: convert_to_markdown_def Let_def split: prod.splits sum.splits)

lemma convert_to_markdown_heap:
  "take (length (heap p)) (heap (snd (convert_to_markdown M uri p))) = heap p"
  by (simp add: convert_to_markdown_def Let_def split: prod.splits sum.splits)

section \<open>When a response can be rendered\<close>

lemma surrogate_at_Cons:
  "surrogate_at (a # t) = ((of_char a :: nat) = 0xED \<and> t \<noteq> [] \<and> 0xA0 \<le> (of_char (hd t) :: nat))"
  by (cases t) simp_all

lemma first_surrogate_None:
  "first_surrogate s i = None \<longleftrightarrow> \<not> has_surrogate s"
  by (induction s arbitrary: i) simp_all

lemma has_surrogate_plain_prefix:
  assumes "\<forall>c\<in>set x. (of_char c :: nat) \<noteq> 0xED"
  shows "has_surrogate (x @ t) = has_surrogate t"
  using assms by (induction x) (simp_all add: surrogate_at_Cons)

lemma hex_digit_plain:
  assumes "d < 16"
  shows "(of_char (hex_digit d) :: nat) < 0x80"
proof -
  have "hex_digit d \<in> set ''0123456789abcdef''"
    unfolding hex_digit_def using assms by (intro nth_mem) simp
  then show ?thesis
    by auto
qed

lemma escape_char_cases:
  "escape_char a = [a] \<or> (\<forall>c\<in>set (escape_char a). (of_char c :: nat) < 0x80)"
proof -
  have "(of_char (hex_digit (of_char a div 16)) :: nat) < 0x80"
    and "(of_char (hex_digit (of_char a mod 16)) :: nat) < 0x80"
    if "(of_char a :: nat) < 0x20"
    using that by (auto intro!: hex_digit_plain)
  then show ?thesis
    by (auto simp add: escape_char_def)
qed

lemma escape_char_not_Nil:
  "escape_char a \<noteq> []"
  by (simp add: escape_char_def)

lemma escape_hd:
  assumes "post \<noteq> []" and "(of_char (hd post) :: nat) < 0xA0"
    and "0xA0 \<le> (of_char (hd (concat (map escape_char v) @ post)) :: nat)"
  shows "v \<noteq> [] \<and> 0xA0 \<le> (of_char (hd v) :: nat)"
proof (cases v)
  case Nil
  with assms show ?thesis
    by simp
next
  case (Cons b v')
  have "hd (concat (map escape_char v) @ post) = hd (escape_char b)"
    using Cons escape_char_not_Nil [of b] by simp
  with assms(3) have "0xA0 \<le> (of_char (hd (escape_char b)) :: nat)"
    by simp
  moreover from escape_char_cases [of b] escape_char_not_Nil [of b]
  have "escape_char b = [b] \<or> (of_char (hd (escape_char b)) :: nat) < 0x80"
    by (cases "escape_char b") auto
  ultimately have "escape_char b = [b]"
    by auto
  with \<open>0xA0 \<le> (of_char (hd (escape_char b)) :: nat)\<close> Cons show ?thesis
    by simp
qed

lemma escape_no_surrogate:
  assumes "post \<noteq> []" and "(of_char (hd post) :: nat) < 0xA0" and "\<not> has_surrogate post"
    and "\<not> has_surrogate v"
  shows "\<not> has_surrogate (concat (map escape_char v) @ post)"
  using assms(4)
proof (induction v)
  case Nil
  with assms(3) show ?case
    by simp
next
  case (Cons a v)
  let ?t = "concat (map escape_char v) @ post"
  from Cons.prems have no_head: "\<not> surrogate_at (a # v)" and "\<not> has_surrogate v"
    by simp_all
  then have tail: "\<not> has_surrogate ?t"
    using Cons.IH by simp
  have "\<not> has_surrogate (escape_char a @ ?t)"
  proof (cases "escape_char a = [a]")
    case True
    have "\<not> surrogate_at (a # ?t)"
    proof
      assume "surrogate_at (a # ?t)"
      then have a: "(of_char a :: nat) = 0xED" and "0xA0 \<le> (of_char (hd ?t) :: nat)"
        by (simp_all add: surrogate_at_Cons)
      with assms(1,2) have "v \<noteq> [] \<and> 0xA0 \<le> (of_char (hd v) :: nat)"
        by (intro escape_hd)
      with a have "surrogate_at (a # v)"
        by (simp add: surrogate_at_Cons)
      with no_head show False ..
    qed
    with True tail show ?thesis
      by simp
  next
    case False
    with escape_char_cases [of a] have "\<forall>c\<in>set (escape_char a). (of_char c :: nat) \<noteq> 0xED"
      by auto
    with tail show ?thesis
      by (simp add: has_surrogate_plain_prefix)
  qed
  then show ?case
    by simp
qed

lemma dumps_no_surrogate:
  assumes "\<not> has_surrogate k" and "\<not> has_surrogate v"
  shows "\<not> has_surrogate (dumps [(k, v)])"
proof -
  let ?inner = "concat (map escape_char v) @ [CHR 0x22, CHR ''}'']"
  let ?post = "[CHR 0x22, CHR '':'', CHR 0x22] @ ?inner"
  have inner: "\<not> has_surrogate ?inner"
    using assms(2) by (intro escape_no_surrogate) simp_all
  then have post: "\<not> has_surrogate ?post"
    by (subst has_surrogate_plain_prefix) simp_all
  have "\<not> has_surrogate (concat (map escape_char k) @ ?post)"
    using post assms(1) by (intro escape_no_surrogate) simp_all
  then have "\<not> has_surrogate ([CHR ''{'', CHR 0x22] @ concat (map escape_char k) @ ?post)"
    by (subst has_surrogate_plain_prefix) simp_all
  then show ?thesis
    by (simp add: dumps_def encode_basestring_def)
qed

lemma JSONResponse_encodable:
  assumes "\<not> has_surrogate k" and "\<not> has_surrogate v"
  shows "JSONResponse [(k, v)] status =
     Inr \<lparr>content = JDict [(k, JStr v)],
          status_code = (case status of None \<Rightarrow> 200 | Some s \<Rightarrow> s)\<rparr>"
proof -
  have "first_surrogate (dumps [(k, v)]) 0 = None"
    using assms by (simp add: first_surrogate_None dumps_no_surrogate)
  then show ?thesis
    by (simp add: JSONResponse_def)
qed

lemma plain_no_surrogate:
  assumes "\<forall>c\<in>set s. (of_char c :: nat) \<noteq> 0xED"
  shows "\<not> has_surrogate s"
  using has_surrogate_plain_prefix [OF assms, of "[]"] by simp

lemma decimal_plain:
  "\<forall>c\<in>set (decimal n). (of_char c :: nat) < 0x80"
proof (induction n rule: decimal.induct)
  case (1 n)
  have digit: "(of_char (''0123456789'' ! d) :: nat) < 0x80" if "d < 10" for d
  proof -
    have "''0123456789'' ! d \<in> set ''0123456789''"
      using that by (intro nth_mem) simp
    then show ?thesis
      by auto
  qed
  show ?case
  proof (cases "n < 10")
    case True
    then show ?thesis
      by (subst decimal.simps) (simp add: digit)
  next
    case False
    with "1.IH" have "\<forall>c\<in>set (decimal (n div 10)). (of_char c :: nat) < 0x80"
      by simp
    with False show ?thesis
      by (subst decimal.simps) (simp add: digit)
  qed
qed

text \<open>The description of the encoding error is ASCII, so it can always be rendered.\<close>

lemma encode_error_str_plain:
  "\<not> has_surrogate (encode_error_str i n cp)"
proof -
  have "\<forall>c\<in>set (encode_error_str i n cp). (of_char c :: nat) < 0x80"
    using decimal_plain [of i] decimal_plain [of "i + n - 1"]
    by (auto simp add: encode_error_str_def hex_digit_plain)
  then have "\<forall>c\<in>set (encode_error_str i n cp). (of_char c :: nat) \<noteq> 0xED"
    by auto
  then show ?thesis
    by (rule plain_no_surrogate)
qed

lemma JSONResponse_cases:
  "(\<exists>i n cp. JSONResponse items status = Inl (Exn ''UnicodeEncodeError'' (encode_error_str i n cp)))
   \<or> JSONResponse items status =
       Inr \<lparr>content = JDict (map (\<lambda>(k, v). (k, JStr v)) items),
            status_code = (case status of None \<Rightarrow> 200 | Some s \<Rightarrow> s)\<rparr>"
  by (auto simp add: JSONResponse_def split: option.splits)

lemma JSONResponse_status:
  assumes "JSONResponse items status = Inr r"
  shows "status_code r = (case status of None \<Rightarrow> 200 | Some s \<Rightarrow> s)"
  using assms by (auto simp add: JSONResponse_def split: option.splits)

lemma missing_parameter_response:
  "JSONResponse [(''error'', ''Missing required parameter: uri'')] (Some 400) =
     Inr \<lparr>content = JDict [(''error'', JStr ''Missing required parameter: uri'')],
          status_code = 400\<rparr>"
  by (simp add: JSONResponse_encodable)

section \<open>Replies depend on the events and on the outside world only\<close>

text \<open>
  The response of the handler, and the world it leaves, written without the state of
  the process: of the state only the outside world is read.
\<close>

lemma convert_body_outcome:
  "fst (convert_body M request p) =
     (case request_json request of
        Inl e \<Rightarrow> Inl e
      | Inr body \<Rightarrow>
          (case py_get body ''uri'' of
             Inl e \<Rightarrow> Inl e
           | Inr uri \<Rightarrow>
               if \<not> truthy uri then
                 JSONResponse [(''error'', ''Missing required parameter: uri'')] (Some 400)
               else
                 (case fst (markitdown_convert M uri (world p)) of
                    Inl e \<Rightarrow> Inl e
                  | Inr markdown \<Rightarrow> JSONResponse [(''markdown'', markdown)] None)))"
proof -
  have "fst (case convert_to_markdown M uri p of
               (Inl e, p') \<Rightarrow> (Inl e, p')
             | (Inr markdown, p') \<Rightarrow> (JSONResponse [(''markdown'', markdown)] None, p')) =
        (case fst (convert_to_markdown M uri p) of
           Inl e \<Rightarrow> Inl e
         | Inr markdown \<Rightarrow> JSONResponse [(''markdown'', markdown)] None)"
    for uri
    by (simp split: prod.splits sum.splits)
  then show ?thesis
    by (simp add: convert_body_def convert_to_markdown_outcome split: sum.splits)
qed

lemma handle_http_convert_outcome:
  "fst (handle_http_convert M request p) =
     (case fst (convert_body M request p) of
        Inr resp \<Rightarrow> Inr resp
      | Inl e \<Rightarrow> JSONResponse [(''error'', exn_str e)] (Some 500))"
  by (simp add: handle_http_convert_def split: prod.splits sum.splits)

lemma handle_http_convert_same_world:
  assumes "world p = world q"
  shows "fst (handle_http_convert M request p) = fst (handle_http_convert M request q)"
  unfolding handle_http_convert_outcome convert_body_outcome assms by (rule refl)

lemma convert_body_world:
  "world (snd (convert_body M request p)) =
     (case request_json request of
        Inl e \<Rightarrow> world p
      | Inr body \<Rightarrow>
          (case py_get body ''uri'' of
             Inl e \<Rightarrow> world p
           | Inr uri \<Rightarrow>
               if \<not> truthy uri then world p else snd (markitdown_convert M uri (world p))))"
proof -
  have "world (snd (case convert_to_markdown M uri p of
               (Inl e, p') \<Rightarrow> (Inl e, p')
             | (Inr markdown, p') \<Rightarrow> (JSONResponse [(''markdown'', markdown)] None, p'))) =
        world (snd (convert_to_markdown M uri p))" for uri
    by (simp split: prod.splits sum.splits)
  then show ?thesis
    by (simp add: convert_body_def convert_to_markdown_world split: sum.splits)
qed

lemma handle_http_convert_world:
  "world (snd (handle_http_convert M request p)) = world (snd (convert_body M request p))"
  by (simp add: handle_http_convert_def logger_def split: prod.splits sum.splits)

lemma handle_http_convert_next_world:
  assumes "world p = world q"
  shows "world (snd (handle_http_convert M request p)) =
         world (snd (handle_http_convert M request q))"
  unfolding handle_http_convert_world convert_body_world assms by (rule refl)

lemma handle_event_same_world:
  assumes "world p = world q"
  shows "fst (handle_event M ev p) = fst (handle_event M ev q)"
    and "world (snd (handle_event M ev p)) = world (snd (handle_event M ev q))"
proof -
  show "fst (handle_event M ev p) = fst (handle_event M ev q)"
  proof (cases ev)
    case (Post_convert request)
    have "fst (handle_event M (Post_convert request) s) =
        (case fst (handle_http_convert M request s) of
           Inr resp \<Rightarrow> Http_response resp | Inl e \<Rightarrow> Handler_raised e)" for s
      by (simp split: prod.splits sum.splits)
    with Post_convert handle_http_convert_same_world [OF assms, of M request] show ?thesis
      by simp
  next
    case (Call_tool uri)
    have "fst (handle_event M (Call_tool uri) s) = Tool_result (fst (convert_to_markdown M uri s))"
      for s
      by (simp split: prod.splits)
    with Call_tool assms show ?thesis
      by (simp add: convert_to_markdown_outcome)
  qed
  show "world (snd (handle_event M ev p)) = world (snd (handle_event M ev q))"
  proof (cases ev)
    case (Post_convert request)
    have "world (snd (handle_event M (Post_convert request) s)) =
        world (snd (handle_http_convert M request s))" for s
      by (simp split: prod.splits sum.splits)
    with Post_convert handle_http_convert_next_world [OF assms, of M request] show ?thesis
      by simp
  next
    case (Call_tool uri)
    have "world (snd (handle_event M (Call_tool uri) s)) =
        world (snd (convert_to_markdown M uri s))" for s
      by (simp split: prod.splits)
    with Call_tool assms show ?thesis
      by (simp add: convert_to_markdown_world)
  qed
qed

lemma serve_same_world:
  assumes "world p = world q"
  shows "fst (serve M evs p) = fst (serve M evs q)"
  using assms
proof (induction evs arbitrary: p q)
  case Nil
  show ?case
    by simp
next
  case (Cons ev evs)
  have unfold: "fst (serve M (ev # evs) s) =
      fst (handle_event M ev s) # fst (serve M evs (snd (handle_event M ev s)))" for s
    by (simp split: prod.splits)
  from Cons.prems have "fst (handle_event M ev p) = fst (handle_event M ev q)"
    and "world (snd (handle_event M ev p)) = world (snd (handle_event M ev q))"
    by (rule handle_event_same_world)+
  moreover from this(2)
  have "fst (serve M evs (snd (handle_event M ev p))) =
      fst (serve M evs (snd (handle_event M ev q)))"
    by (rule Cons.IH)
  ultimately show ?case
    by (simp only: unfold)
qed

section \<open>The registry is not changed\<close>

lemma convert_body_tools:
  "tools (snd (convert_body M request p)) = tools p"
proof -
  have "tools (snd (case convert_to_markdown M uri p of
               (Inl e, p') \<Rightarrow> (Inl e, p')
             | (Inr markdown, p') \<Rightarrow> (JSONResponse [(''markdown'', markdown)] None, p'))) =
        tools (snd (convert_to_markdown M uri p))" for uri
    by (simp split: prod.splits sum.splits)
  then show ?thesis
    by (simp add: convert_body_def convert_to_markdown_tools split: sum.splits)
qed

lemma handle_http_convert_tools:
  "tools (snd (handle_http_convert M request p)) = tools p"
proof -
  have "tools (snd (handle_http_convert M request p)) = tools (snd (convert_body M request p))"
    by (simp add: handle_http_convert_def logger_def split: prod.splits sum.splits)
  then show ?thesis
    by (simp add: convert_body_tools)
qed

lemma handle_event_tools:
  "tools (snd (handle_event M ev p)) = tools p"
proof (cases ev)
  case (Post_convert request)
  have "tools (snd (handle_event M (Post_convert request) p)) =
      tools (snd (handle_http_convert M request p))"
    by (simp split: prod.splits sum.splits)
  with Post_convert show ?thesis
    by (simp add: handle_http_convert_tools)
next
  case (Call_tool uri)
  have "tools (snd (handle_event M (Call_tool uri) p)) =
      tools (snd (convert_to_markdown M uri p))"
    by (simp split: prod.splits)
  with Call_tool show ?thesis
    by (simp add: convert_to_markdown_tools)
qed

lemma serve_tools:
  "tools (snd (serve M evs p)) = tools p"
proof (induction evs arbitrary: p)
  case Nil
  show ?case
    by simp
next
  case (Cons ev evs)
  have "snd (serve M (ev # evs) p) = snd (serve M evs (snd (handle_event M ev p)))"
    by (simp split: prod.splits)
  then show ?case
    by (simp add: Cons.IH handle_event_tools)
qed

lemma main_tools:
  "tools (snd (main argv parsed p)) = tools p"
  by (simp add: main_def parser_error_def logger_def Let_def split: parse_result.splits)

lemma mcp_registry:
  "mcp = Inr [\<lparr>cap_id = ''convert_to_markdown'',
               cap_description = fn_doc convert_to_markdown_fn,
               input_schema = [(''uri'', \<lparr>field_type = Ann_str, required = True\<rparr>)],
               cap_handler = Fn_convert_to_markdown\<rparr>]"
  by (simp add: mcp_def tool_def register_def convert_to_markdown_fn_def)

lemma map_of_filter_key:
  "map_of (filter (\<lambda>kv. fst kv \<noteq> k) kvs) k = None"
  by (induction kvs) auto

section \<open>The convenience endpoint\<close>

text \<open>
  Claim C1 says that the request is answered with status 200 and \<open>{"markdown": m}\<close>
  whenever the converter returns a text \<open>m\<close>. A text that holds a lone surrogate cannot
  be rendered: the constructor of the response raises inside the \<^verbatim>\<open>try\<close> body, and the
  request is answered with status 500 and the description of the encoding error.
\<close>

theorem unencodable_markdown_500:
  "fst (fn_call stub_markitdown Fn_convert_to_markdown (JStr ''file:///notes.ipynb'') stub_proc) =
     Inr (''# '' @ [CHR 0xED, CHR 0xA0, CHR 0x80])
   \<and> fst (handle_http_convert stub_markitdown
         \<lparr>request_json = Inr (JDict [(''uri'', JStr ''file:///notes.ipynb'')])\<rparr> stub_proc) =
     Inr \<lparr>content = JDict [(''error'', JStr (encode_error_str 15 1 0xD800))],
          status_code = 500\<rparr>"
proof -
  have "JSONResponse [(''error'', encode_error_str 15 1 0xD800)] (Some 500) =
      Inr \<lparr>content = JDict [(''error'', JStr (encode_error_str 15 1 0xD800))],
           status_code = 500\<rparr>"
    by (simp add: JSONResponse_encodable encode_error_str_plain)
  moreover have "first_surrogate (dumps [(''markdown'', ''# '' @ [CHR 0xED, CHR 0xA0, CHR 0x80])]) 0 =
      Some (15, 1, 0xD800)"
    by (simp add: dumps_def encode_basestring_def escape_char_def is_continuation_def)
  then have "JSONResponse [(''markdown'', ''# '' @ [CHR 0xED, CHR 0xA0, CHR 0x80])] None =
      Inl (Exn ''UnicodeEncodeError'' (encode_error_str 15 1 0xD800))"
    by (simp add: JSONResponse_def)
  then have "fst (convert_body stub_markitdown
      \<lparr>request_json = Inr (JDict [(''uri'', JStr ''file:///notes.ipynb'')])\<rparr> stub_proc) =
      Inl (Exn ''UnicodeEncodeError'' (encode_error_str 15 1 0xD800))"
    by (simp add: convert_body_def convert_to_markdown_def stub_markitdown_def stub_proc_def
        startup_def stub_world_def Let_def)
  moreover have "fst (fn_call stub_markitdown Fn_convert_to_markdown
      (JStr ''file:///notes.ipynb'') stub_proc) = Inr (''# '' @ [CHR 0xED, CHR 0xA0, CHR 0x80])"
    by (simp add: convert_to_markdown_def stub_markitdown_def stub_proc_def startup_def
        stub_world_def Let_def)
  ultimately show ?thesis
    by (simp add: handle_http_convert_outcome)
qed

text \<open>
  Claim C1, amended. A POST to \<^verbatim>\<open>/convert\<close> whose JSON body is an object with a
  non-empty string under \<open>uri\<close>, for which the handler that the registry refers to
  returns a markdown text \<open>m\<close> that can be encoded as UTF-8 (it holds no lone surrogate),
  is answered with status 200 and the body \<open>{"markdown": m}\<close>. The handler of the registry
  is called directly: the state the request leaves is the state that one call of that
  handler leaves, and nothing of a session is read or written.
\<close>

theorem convert_success:
  assumes "request_json request = Inr (JDict kvs)"
    and "map_of kvs ''uri'' = Some (JStr s)"
    and "s \<noteq> []"
    and "fn_call M Fn_convert_to_markdown (JStr s) p = (Inr m, p')"
    and "\<not> has_surrogate m"
  shows "handle_http_convert M request p =
           (Inr \<lparr>content = JDict [(''markdown'', JStr m)], status_code = 200\<rparr>, p')"
proof -
  have "JSONResponse [(''markdown'', m)] None =
      Inr \<lparr>content = JDict [(''markdown'', JStr m)], status_code = 200\<rparr>"
    using assms(5) by (simp add: JSONResponse_encodable)
  with assms(1-4) show ?thesis
    by (simp add: handle_http_convert_def convert_body_def)
qed

theorem convert_success_witness:
  "handle_http_convert stub_markitdown
     \<lparr>request_json = Inr (JDict [(''uri'', JStr ''https://example.com'')])\<rparr> stub_proc =
   (Inr \<lparr>content = JDict [(''markdown'', JStr ''Example'')], status_code = 200\<rparr>,
    stub_proc\<lparr>heap := [1], calls := [JStr ''https://example.com'']\<rparr>)"
proof -
  have 1: "request_json \<lparr>request_json = Inr (JDict [(''uri'', JStr ''https://example.com'')])\<rparr> =
      Inr (JDict [(''uri'', JStr ''https://example.com'')])"
    by simp
  have 2: "map_of [(''uri'', JStr ''https://example.com'')] ''uri'' =
      Some (JStr ''https://example.com'')"
    by simp
  have 3: "''https://example.com'' \<noteq> []"
    by simp
  have 4: "fn_call stub_markitdown Fn_convert_to_markdown (JStr ''https://example.com'')
        stub_proc =
      (Inr ''Example'', stub_proc\<lparr>heap := [1], calls := [JStr ''https://example.com'']\<rparr>)"
    by (simp add: convert_to_markdown_def stub_markitdown_def stub_proc_def startup_def
        stub_world_def Let_def)
  have 5: "\<not> has_surrogate ''Example''"
    by simp
  show ?thesis
    by (rule convert_success [OF 1 2 3 4 5])
qed

text \<open>
  Claim C2 says that every JSON body that lacks the field \<open>uri\<close> is answered with
  status 400. The JSON body \<open>[]\<close> lacks the field, and it is answered with status 500:
  a list has no method \<^verbatim>\<open>get\<close>, the attribute access raises and the \<^verbatim>\<open>except\<close> clause
  answers.
\<close>

theorem non_object_body_500:
  "handle_http_convert stub_markitdown \<lparr>request_json = Inr (JList [])\<rparr> stub_proc =
     (Inr \<lparr>content =
            JDict [(''error'',
              JStr (quoted ''list'' @ '' object has no attribute '' @ quoted ''get''))],
          status_code = 500\<rparr>,
      logger ERROR
        [Text ''Error processing request: '',
         Text (quoted ''list'' @ '' object has no attribute '' @ quoted ''get'')]
        stub_proc)"
proof -
  have "\<not> has_surrogate (quoted ''list'' @ '' object has no attribute '' @ quoted ''get'')"
    by (simp add: quoted_def)
  then show ?thesis
    by (simp add: handle_http_convert_def convert_body_def JSONResponse_encodable)
qed

text \<open>
  Claim C2, amended. A POST to \<^verbatim>\<open>/convert\<close> whose JSON body is an object without the key
  \<open>uri\<close> is answered with status 400 and a body with the field \<open>error\<close>. The state of
  the process is left as it was: no converter is constructed, the outside world is not
  touched and the history of calls of the conversion handler does not grow.
\<close>

theorem missing_uri:
  assumes "request_json request = Inr (JDict kvs)"
    and "map_of kvs ''uri'' = None"
  shows "handle_http_convert M request p =
           (Inr \<lparr>content = JDict [(''error'', JStr ''Missing required parameter: uri'')],
                 status_code = 400\<rparr>, p)
         \<and> calls (snd (handle_http_convert M request p)) = calls p"
  using assms by (simp add: handle_http_convert_def convert_body_def missing_parameter_response)

theorem missing_uri_witness:
  "handle_http_convert stub_markitdown \<lparr>request_json = Inr (JDict [])\<rparr> stub_proc =
     (Inr \<lparr>content = JDict [(''error'', JStr ''Missing required parameter: uri'')],
           status_code = 400\<rparr>, stub_proc)"
  using missing_uri [of "\<lparr>request_json = Inr (JDict [])\<rparr>" "[]" stub_markitdown stub_proc]
  by simp

text \<open>
  When the body has a truthy \<open>uri\<close> and the conversion raises an exception \<open>e\<close> whose
  description can be encoded, the request is answered with status 500 and the body
  \<open>{"error": str(e)}\<close>, and whatever is handled afterwards gets the replies it would have
  got had the failed request never been handled, up to what the converter itself did to
  the outside world.
\<close>

lemma conversion_failure_encodable:
  assumes "request_json request = Inr (JDict kvs)"
    and "map_of kvs ''uri'' = Some uri"
    and "truthy uri"
    and "convert_to_markdown M uri p = (Inl e, p')"
    and "\<not> has_surrogate (exn_str e)"
  shows "fst (handle_http_convert M request p) =
           Inr \<lparr>content = JDict [(''error'', JStr (exn_str e))], status_code = 500\<rparr>"
    and "fst (serve M evs (snd (handle_http_convert M request p))) =
           fst (serve M evs (p\<lparr>world := world p'\<rparr>))"
proof -
  have run: "handle_http_convert M request p =
      (JSONResponse [(''error'', exn_str e)] (Some 500),
       logger ERROR [Text ''Error processing request: '', Text (exn_str e)] p')"
    using assms(1-4) by (simp add: handle_http_convert_def convert_body_def)
  with assms(5) show "fst (handle_http_convert M request p) =
      Inr \<lparr>content = JDict [(''error'', JStr (exn_str e))], status_code = 500\<rparr>"
    by (simp add: JSONResponse_encodable)
  have "world (snd (handle_http_convert M request p)) = world (p\<lparr>world := world p'\<rparr>)"
    by (simp add: run logger_def)
  then show "fst (serve M evs (snd (handle_http_convert M request p))) =
      fst (serve M evs (p\<lparr>world := world p'\<rparr>))"
    by (rule serve_same_world)
qed

text \<open>The response of the \<^verbatim>\<open>except\<close> clause for the description \<^verbatim>\<open>"\ud800"\<close>.\<close>

lemma surrogate_error_response:
  "JSONResponse [(''error'', [CHR 0xED, CHR 0xA0, CHR 0x80])] (Some 500) =
     Inl (Exn ''UnicodeEncodeError'' (encode_error_str 10 1 0xD800))"
proof -
  have "first_surrogate (dumps [(''error'', [CHR 0xED, CHR 0xA0, CHR 0x80])]) 0 =
      Some (10, 1, 0xD800)"
    by (simp add: dumps_def encode_basestring_def escape_char_def is_continuation_def)
  then show ?thesis
    by (simp add: JSONResponse_def)
qed

text \<open>
  Claim C4 says that whenever the conversion raises, the request is answered with
  status 500 and the description of the failure. For the body \<open>{"uri": "\ud800"}\<close> the
  converter raises an exception whose description repeats the URI; the \<^verbatim>\<open>except\<close>
  clause then constructs its response outside the \<^verbatim>\<open>try\<close> body, the constructor cannot
  encode the description, and \<^verbatim>\<open>UnicodeEncodeError\<close> leaves the handler: no response
  with status 500 is returned.
\<close>

theorem unencodable_failure_escapes:
  "fst (convert_to_markdown stub_markitdown (JStr [CHR 0xED, CHR 0xA0, CHR 0x80]) stub_proc) =
     Inl (Exn ''FileNotFoundError'' [CHR 0xED, CHR 0xA0, CHR 0x80])
   \<and> fst (handle_http_convert stub_markitdown
         \<lparr>request_json = Inr (JDict [(''uri'', JStr [CHR 0xED, CHR 0xA0, CHR 0x80])])\<rparr>
         stub_proc) =
     Inl (Exn ''UnicodeEncodeError'' (encode_error_str 10 1 0xD800))"
  by (simp add: handle_http_convert_def convert_body_def convert_to_markdown_def
      stub_markitdown_def stub_proc_def startup_def stub_world_def surrogate_error_response
      Let_def)

text \<open>
  Claim C8. When the body is an object that binds \<open>uri\<close> to the empty string, to
  \<open>null\<close>, to \<open>false\<close> or to the integer \<open>0\<close>, the request is answered as if the key
  were missing: status 400, the same error message, the state of the process left as it
  was (so no conversion), and the very result of the request whose body has the key
  removed.
\<close>

theorem falsy_uri:
  assumes "request_json request = Inr (JDict kvs)"
    and "map_of kvs ''uri'' = Some v"
    and "v \<in> {JStr '''', JNull, JBool False, JInt 0}"
  shows "handle_http_convert M request p =
           (Inr \<lparr>content = JDict [(''error'', JStr ''Missing required parameter: uri'')],
                 status_code = 400\<rparr>, p)
         \<and> handle_http_convert M request p =
           handle_http_convert M
             \<lparr>request_json = Inr (JDict (filter (\<lambda>kv. fst kv \<noteq> ''uri'') kvs))\<rparr> p"
proof -
  from assms(3) have "\<not> truthy v"
    by auto
  with assms(1,2) have "handle_http_convert M request p =
      (Inr \<lparr>content = JDict [(''error'', JStr ''Missing required parameter: uri'')],
            status_code = 400\<rparr>, p)"
    by (simp add: handle_http_convert_def convert_body_def missing_parameter_response)
  moreover have "handle_http_convert M
      \<lparr>request_json = Inr (JDict (filter (\<lambda>kv. fst kv \<noteq> ''uri'') kvs))\<rparr> p =
      (Inr \<lparr>content = JDict [(''error'', JStr ''Missing required parameter: uri'')],
            status_code = 400\<rparr>, p)"
    by (simp add: handle_http_convert_def convert_body_def missing_parameter_response
        map_of_filter_key)
  ultimately show ?thesis
    by simp
qed

theorem falsy_uri_witness:
  "handle_http_convert stub_markitdown
     \<lparr>request_json = Inr (JDict [(''uri'', JInt 0), (''format'', JStr ''md'')])\<rparr> stub_proc =
     (Inr \<lparr>content = JDict [(''error'', JStr ''Missing required parameter: uri'')],
           status_code = 400\<rparr>, stub_proc)
   \<and> handle_http_convert stub_markitdown
     \<lparr>request_json = Inr (JDict [(''uri'', JInt 0), (''format'', JStr ''md'')])\<rparr> stub_proc =
     handle_http_convert stub_markitdown
       \<lparr>request_json = Inr (JDict [(''format'', JStr ''md'')])\<rparr> stub_proc"
proof -
  let ?kvs = "[(''uri'', JInt 0), (''format'', JStr ''md'')]"
  have 1: "request_json \<lparr>request_json = Inr (JDict ?kvs)\<rparr> = Inr (JDict ?kvs)"
    by simp
  have 2: "map_of ?kvs ''uri'' = Some (JInt 0)"
    by simp
  have 3: "JInt 0 \<in> {JStr '''', JNull, JBool False, JInt 0}"
    by simp
  have 4: "filter (\<lambda>kv. fst kv \<noteq> ''uri'') ?kvs = [(''format'', JStr ''md'')]"
    by simp
  show ?thesis
    using falsy_uri [OF 1 2 3, of stub_markitdown stub_proc] unfolding 4 .
qed

text \<open>
  The handler raises only from the constructor of the response of its \<^verbatim>\<open>except\<close>
  clause, that is, only when the description of the exception it has caught cannot be
  encoded; in every other case it returns a response with status 200, 400 or 500. An
  encoding error of the success response is itself caught and can be described.
\<close>

lemma handler_raises_only_unencodable:
  assumes "fst (handle_http_convert M request p) = Inl e'"
  shows "\<exists>e. fst (convert_body M request p) = Inl e \<and> has_surrogate (exn_str e)"
proof (cases "fst (convert_body M request p)")
  case (Inl e)
  have "has_surrogate (exn_str e)"
  proof (rule ccontr)
    assume "\<not> has_surrogate (exn_str e)"
    then have "JSONResponse [(''error'', exn_str e)] (Some 500) =
        Inr \<lparr>content = JDict [(''error'', JStr (exn_str e))], status_code = 500\<rparr>"
      by (simp add: JSONResponse_encodable)
    with Inl assms show False
      by (simp add: handle_http_convert_outcome)
  qed
  with Inl show ?thesis
    by simp
next
  case (Inr resp)
  with assms show ?thesis
    by (simp add: handle_http_convert_outcome)
qed

lemma handler_status:
  assumes "fst (handle_http_convert M request p) = Inr resp"
  shows "status_code resp \<in> {200, 400, 500}"
proof -
  have body: "status_code r \<in> {200, 400}" if "fst (convert_body M request p) = Inr r" for r
    using that
    by (auto simp add: convert_body_outcome missing_parameter_response
        split: sum.splits if_splits dest: JSONResponse_status)
  show ?thesis
  proof (cases "fst (convert_body M request p)")
    case (Inl e)
    with assms show ?thesis
      by (auto simp add: handle_http_convert_outcome dest: JSONResponse_status)
  next
    case (Inr r)
    with assms body [of r] show ?thesis
      by (auto simp add: handle_http_convert_outcome)
  qed
qed

lemma malformed_body_500:
  assumes "request_json request = Inl e" and "\<not> has_surrogate (exn_str e)"
  shows "fst (handle_http_convert M request p) =
     Inr \<lparr>content = JDict [(''error'', JStr (exn_str e))], status_code = 500\<rparr>"
  using assms by (simp add: handle_http_convert_def convert_body_def JSONResponse_encodable)

text \<open>
  Claim C9 says that the handler returns a JSON response for every request and never
  lets an exception out. For the body \<open>{"uri": "\ud800"}\<close>, which is JSON, and a
  converter whose exception repeats the URI, the handler returns no response at all:
  the \<^verbatim>\<open>UnicodeEncodeError\<close> of the constructor in the \<^verbatim>\<open>except\<close> clause leaves it.
\<close>

theorem handler_not_total:
  "fst (handle_http_convert stub_markitdown
         \<lparr>request_json = Inr (JDict [(''uri'', JStr [CHR 0xED, CHR 0xA0, CHR 0x80])])\<rparr>
         stub_proc) \<noteq> Inr resp"
  by (simp add: handle_http_convert_def convert_body_def convert_to_markdown_def
      stub_markitdown_def stub_proc_def startup_def stub_world_def surrogate_error_response
      Let_def)

section \<open>The registry and the converter\<close>

text \<open>
  Claim C6. Once the module is loaded the registry holds one capability: its id is
  \<open>convert_to_markdown\<close>, its input schema is the one required string field \<open>uri\<close>, and
  the function its handler stands for returns what
  \<^verbatim>\<open>MarkItDown().convert_uri(uri).markdown\<close> returns in the world of the call. The
  registry stays as it is for the life of the process: neither the entry point nor any
  run of requests to \<^verbatim>\<open>/convert\<close> and of tool calls changes it.
\<close>

theorem registry_single_capability:
  "mcp =
     Inr [\<lparr>cap_id = ''convert_to_markdown'',
           cap_description = fn_doc convert_to_markdown_fn,
           input_schema = [(''uri'', \<lparr>field_type = Ann_str, required = True\<rparr>)],
           cap_handler = Fn_convert_to_markdown\<rparr>]
   \<and> tools (startup w) =
     [\<lparr>cap_id = ''convert_to_markdown'',
       cap_description = fn_doc convert_to_markdown_fn,
       input_schema = [(''uri'', \<lparr>field_type = Ann_str, required = True\<rparr>)],
       cap_handler = Fn_convert_to_markdown\<rparr>]
   \<and> fst (fn_call M Fn_convert_to_markdown uri p) = fst (markitdown_convert M uri (world p))
   \<and> tools (snd (main argv parsed p)) = tools p
   \<and> tools (snd (serve M evs p)) = tools p"
  by (simp add: startup_def mcp_registry convert_to_markdown_outcome main_tools serve_tools)

text \<open>
  Claim C10. A call of the conversion handler constructs its own MarkItDown instance:
  its outcome is the outcome of \<^verbatim>\<open>MarkItDown().convert_uri(uri).markdown\<close> in the world
  of the call, and the instances of earlier calls are left as they were. So two states
  of the process with the same outside world, whatever calls have led to them, give the
  same outcome for the same URI, and the same replies for the same run of requests to
  \<^verbatim>\<open>/convert\<close> and tool calls of protocol sessions.
\<close>

theorem fresh_converter:
  assumes "world p = world q"
  shows "fst (convert_to_markdown M uri p) = fst (markitdown_convert M uri (world p))
         \<and> take (length (heap p)) (heap (snd (convert_to_markdown M uri p))) = heap p
         \<and> fst (convert_to_markdown M uri p) = fst (convert_to_markdown M uri q)
         \<and> fst (serve M evs p) = fst (serve M evs q)"
  using assms serve_same_world [OF assms, of M evs]
  by (simp add: convert_to_markdown_outcome convert_to_markdown_heap)

theorem fresh_converter_witness:
  "fst (serve stub_markitdown
         [Call_tool (JStr ''file:///a.txt''),
          Post_convert \<lparr>request_json = Inr (JDict [(''uri'', JStr ''file:///a.txt'')])\<rparr>]
         (snd (serve stub_markitdown
            [Post_convert \<lparr>request_json = Inr (JDict [(''uri'', JStr ''https://example.com'')])\<rparr>,
             Call_tool (JStr ''https://nowhere.invalid'')]
            stub_proc))) =
     [Tool_result (Inr ''# Title''),
      Http_response \<lparr>content = JDict [(''markdown'', JStr ''# Title'')], status_code = 200\<rparr>]"
proof -
  let ?before = "[Post_convert \<lparr>request_json = Inr (JDict [(''uri'', JStr ''https://example.com'')])\<rparr>,
      Call_tool (JStr ''https://nowhere.invalid'')]"
  let ?evs = "[Call_tool (JStr ''file:///a.txt''),
      Post_convert \<lparr>request_json = Inr (JDict [(''uri'', JStr ''file:///a.txt'')])\<rparr>]"
  let ?q = "snd (serve stub_markitdown ?before stub_proc)"
  have 1: "world stub_proc = world ?q"
    by (simp add: handle_http_convert_def convert_body_def convert_to_markdown_def
        stub_markitdown_def stub_proc_def startup_def stub_world_def JSONResponse_def dumps_def
        encode_basestring_def escape_char_def is_continuation_def Let_def)
  have 2: "fst (serve stub_markitdown ?evs stub_proc) =
      [Tool_result (Inr ''# Title''),
       Http_response \<lparr>content = JDict [(''markdown'', JStr ''# Title'')], status_code = 200\<rparr>]"
    by (simp add: handle_http_convert_def convert_body_def convert_to_markdown_def
        stub_markitdown_def stub_proc_def startup_def stub_world_def JSONResponse_def dumps_def
        encode_basestring_def escape_char_def is_continuation_def Let_def)
  note t = fresh_converter [OF 1, where M = stub_markitdown and uri = "JStr ''file:///a.txt''"
      and evs = ?evs]
  from t have "fst (serve stub_markitdown ?evs stub_proc) = fst (serve stub_markitdown ?evs ?q)"
    by (rule conjunct2 [THEN conjunct2, THEN conjunct2])
  from this [symmetric] 2 show ?thesis
    by (rule trans)
qed

section \<open>The command line\<close>

text \<open>
  Without \<^verbatim>\<open>--sse\<close>, a non-empty host or a non-zero port ends the program with exit
  status 2, after the message went to the error stream twice: as a log record and as the
  usage error of the parser.
\<close>

lemma stdio_usage_error:
  assumes "\<not> sse a" and "host_truthy (host a) \<or> port_truthy (port a)"
  shows "main argv (Parsed a) p =
     (Sys_exit 2,
      p\<lparr>stderr := stderr p @
         [Log_record INFO [Text ''Starting markitdown-mcp server''],
          Log_record DEBUG [Text ''Command line arguments: '', Obj_argv argv],
          Log_record DEBUG [Text ''Parsed arguments: '', Obj_args a],
          Log_record ERROR [Text error_msg],
          Usage_error error_msg]\<rparr>)"
  using assms by (simp add: main_def logger_def parser_error_def Let_def)

text \<open>
  Claim C3 says that in stdio mode every supplied host or port ends the program with a
  usage error. The command line \<^verbatim>\<open>--port 0\<close> supplies a port, and the program starts the
  stdio transport: the guard tests the truth value of \<^verbatim>\<open>args.port\<close>, which is false for
  the port 0 as it is for an absent port, and nothing but the debug record of the parsed
  arguments goes to the error stream about it.
\<close>

theorem port_zero_ignored:
  "main [''--port'', ''0''] (Parsed \<lparr>sse = False, host = None, port = Some 0\<rparr>) p =
     (Mcp_run_stdio,
      p\<lparr>stderr := stderr p @
         [Log_record INFO [Text ''Starting markitdown-mcp server''],
          Log_record DEBUG [Text ''Command line arguments: '', Obj_argv [''--port'', ''0'']],
          Log_record DEBUG
            [Text ''Parsed arguments: '', Obj_args \<lparr>sse = False, host = None, port = Some 0\<rparr>],
          Log_record INFO [Text ''Starting in STDIO mode'']]\<rparr>)"
  by (simp add: main_def logger_def Let_def)

text \<open>
  Claim C5 says that without \<^verbatim>\<open>--sse\<close> the program runs the stdio transport. With
  \<^verbatim>\<open>--host 0.0.0.0\<close> and no \<^verbatim>\<open>--sse\<close> it does not: it exits with status 2.
\<close>

theorem host_without_sse_exits:
  "fst (main [''--host'', ''0.0.0.0'']
         (Parsed \<lparr>sse = False, host = Some ''0.0.0.0'', port = None\<rparr>) stub_proc) = Sys_exit 2
   \<and> fst (main [''--host'', ''0.0.0.0'']
         (Parsed \<lparr>sse = False, host = Some ''0.0.0.0'', port = None\<rparr>) stub_proc) \<noteq>
       Mcp_run_stdio"
  by (simp add: main_def logger_def parser_error_def Let_def)

text \<open>
  Claim C5, amended. With \<^verbatim>\<open>--sse\<close> and neither host nor port on the command line the
  server is started on 127.0.0.1 and port 3001; without \<^verbatim>\<open>--sse\<close> and with neither host
  nor port on the command line the program runs the stdio transport.
\<close>

theorem transport_selection:
  "(sse a \<and> host a = None \<and> port a = None \<longrightarrow>
      fst (main argv (Parsed a) p) = Uvicorn_run ''127.0.0.1'' 3001)
   \<and> (\<not> sse a \<and> host a = None \<and> port a = None \<longrightarrow>
      fst (main argv (Parsed a) p) = Mcp_run_stdio)"
  by (simp add: main_def logger_def Let_def)

theorem transport_selection_witness:
  "fst (main [''--sse''] (Parsed \<lparr>sse = True, host = None, port = None\<rparr>) stub_proc) =
     Uvicorn_run ''127.0.0.1'' 3001
   \<and> fst (main [] (Parsed \<lparr>sse = False, host = None, port = None\<rparr>) stub_proc) = Mcp_run_stdio"
  using transport_selection [of "\<lparr>sse = True, host = None, port = None\<rparr>" "[''--sse'']" stub_proc]
    transport_selection [of "\<lparr>sse = False, host = None, port = None\<rparr>" "[]" stub_proc]
  by simp

end
